theory Spec2Isabelle
  imports Main "HOL-Library.Char_ord" "HOL-Library.List_Lexorder" "HOL-Library.AList"
    "HOL-Library.Multiset"
begin

section \<open>Byte slices and the standard-library functions the parser uses\<close>

text \<open>
  A Go byte slice is a window on a backing array: its elements are the first \<open>len\<close>
  bytes, and a reslice \<open>data[:h]\<close> may reach up to \<open>cap\<close>, beyond \<open>len\<close>. Where the
  source reslices with an upper bound, the model carries the bytes of the backing array
  after the slice's length (\<open>spare\<close>) next to the slice's elements. Everywhere else a
  slice is the list of its elements. A run-time panic is a value of type \<open>panic\<close>.
\<close>

datatype panic = SliceBoundsOutOfRange | IndexOutOfRange | NilDereference | LeafCannotHaveChildren

text \<open>\<^verbatim>\<open>bytes.HasPrefix(s, prefix)\<close>\<close>

definition HasPrefix :: "string \<Rightarrow> string \<Rightarrow> bool" where
  "HasPrefix s p = (take (length p) s = p)"

text \<open>\<^verbatim>\<open>bytes.Index(s, sep)\<close>: the index of the first instance of \<open>sep\<close> in \<open>s\<close>, or -1.\<close>

fun Index :: "string \<Rightarrow> string \<Rightarrow> int" where
  "Index [] sep = (if sep = [] then 0 else - 1)"
| "Index (c # s) sep =
     (if HasPrefix (c # s) sep then 0
      else (let r = Index s sep in if r < 0 then - 1 else r + 1))"

text \<open>\<^verbatim>\<open>data[lo:hi]\<close> with \<open>lo \<le> hi \<le> len(data)\<close>.\<close>

definition slice :: "string \<Rightarrow> nat \<Rightarrow> nat \<Rightarrow> string" where
  "slice data lo hi = take (hi - lo) (drop lo data)"

section \<open>IsReference\<close>

text \<open>
  \<^verbatim>\<open>IsReference(data)\<close> returns \<open>(nil, false)\<close>, here \<open>Inr None\<close>, or \<open>(span, true)\<close>, here
  \<open>Inr (Some span)\<close>. The slice expression \<open>data[len(typ):]\<close> panics when \<open>len(typ)\<close>
  exceeds \<open>len(data)\<close>; the slice expression \<open>data[:end+2*len(typ)]\<close> panics when its
  bound is negative or exceeds \<open>cap(data)\<close>, and reads the backing array otherwise.
\<close>

definition IsReference :: "string \<Rightarrow> string \<Rightarrow> panic + string option" where
  "IsReference data spare =
     (let typ0 = [];
          typ1 = (if HasPrefix data ''<reference '' then ''</reference>'' else typ0);
          typ = (if HasPrefix data ''<referencegroup '' then ''</referencegroup>'' else typ1)
      in if typ = [] then Inr None
         else if length typ > length data then Inl SliceBoundsOutOfRange
         else let end = Index (drop (length typ) data) typ
              in if end > int (length data) \<or> end = 0 then Inr None
                 else let hi = end + 2 * int (length typ)
                      in if hi < 0 \<or> hi > int (length data + length spare)
                         then Inl SliceBoundsOutOfRange
                         else Inr (Some (take (nat hi) (data @ spare))))"

section \<open>anchorFromReference\<close>

text \<open>The scanning loop \<^verbatim>\<open>for i < len(data) && data[i] != quote { i++ }\<close>.\<close>

function scan :: "string \<Rightarrow> char \<Rightarrow> nat \<Rightarrow> nat" where
  "scan data quote i =
     (if i < length data \<and> data ! i \<noteq> quote then scan data quote (i + 1) else i)"
  by pat_completeness auto
termination
  by (relation "measure (\<lambda>(data, quote, i). length data - i)") auto

declare scan.simps [simp del]

text \<open>
  \<^verbatim>\<open>anchorFromReference(data)\<close> returns \<open>nil\<close>, here \<open>None\<close>, or a (possibly empty) subslice
  of \<open>data\<close>. Every index it reads is guarded by a comparison with \<open>len(data)\<close>.
\<close>

definition anchorFromReference :: "string \<Rightarrow> string option" where
  "anchorFromReference data =
     (if \<not> HasPrefix data ''<reference '' \<and> \<not> HasPrefix data ''<referencegroup '' then None
      else let anchor = Index data ''anchor=''
           in if anchor < 0 then None
              else let beg = nat anchor + 7
                   in if beg \<ge> length data then None
                      else let quote = data ! beg;
                               i = scan data quote (beg + 1)
                           in if i \<ge> length data then None
                              else Some (slice data (beg + 1) i))"

section \<open>The document tree\<close>

text \<open>
  Modelled from the spec: the declarations of \<^verbatim>\<open>ast.CitationTypes\<close> and
  \<^verbatim>\<open>ast.DocumentMatters\<close> are in the markdown library, not among the sources. Section 3
  of the spec gives the three citation kinds, which are the three constants the source
  names.
\<close>

datatype CitationTypes = CitationTypeSuppressed | CitationTypeInformative | CitationTypeNormative

datatype DocumentMatters = DocumentMatterFront | DocumentMatterMain | DocumentMatterBack

text \<open>Of \<^verbatim>\<open>mast.Author\<close> and \<^verbatim>\<open>mast.Contact\<close> the code reads the field \<open>Fullname\<close> only.\<close>

record Author =
  Fullname :: string

type_synonym Contact = Author

record TitleData =
  Author :: "Author list"
  Contact :: "Contact list"

text \<open>
  \<^verbatim>\<open>mast.Title\<close> embeds a pointer \<^verbatim>\<open>*TitleData\<close>, which the renderer in
  \<^verbatim>\<open>render/xml/title.go\<close> tests against \<open>nil\<close>: the field is an \<open>option\<close>.
\<close>

record Title =
  TitleData :: "TitleData option"

text \<open>
  \<^verbatim>\<open>mast.BibliographyItem\<close>; \<open>'r\<close> is the type of a decoded \<^verbatim>\<open>reference.Reference\<close>.
  \<open>Reference\<close> is a pointer and \<open>ReferenceGroup\<close> a byte slice, both \<open>nil\<close> in a new item.
\<close>

record 'r BibliographyItem =
  Anchor :: string
  Type :: CitationTypes
  Reference :: "'r option"
  ReferenceGroup :: "string option"

text \<open>
  Modelled from the spec: the tree type \<^verbatim>\<open>ast.Node\<close> is declared in the markdown library.
  Section 3 of the spec: an ordered, rooted tree of typed nodes. A leaf node has no
  children; \<^verbatim>\<open>ast.Citation\<close> holds the parallel slices \<open>Destination\<close> and \<open>Type\<close>, a
  \<^verbatim>\<open>mast.ReferenceBlock\<close> its \<open>Literal\<close>.
\<close>

datatype 'r leaf =
    Citation "string list" "CitationTypes list"
  | ReferenceBlock string
  | TitleNode Title
  | BibliographyItemNode "'r BibliographyItem"
  | OtherLeaf

datatype container =
    DocumentMatter DocumentMatters
  | Bibliography CitationTypes
  | BibliographyWrapper
  | OtherContainer

datatype 'r node = Leaf "'r leaf" | Container container "'r node list"

text \<open>
  A pointer to a node of the document is the path from the root to it: the indices of
  the children to descend into.
\<close>

type_synonym path = "nat list"

fun nodeAt :: "'r node \<Rightarrow> path \<Rightarrow> 'r node option" where
  "nodeAt n [] = Some n"
| "nodeAt (Leaf l) (i # p) = None"
| "nodeAt (Container c cs) (i # p) = (if i < length cs then nodeAt (cs ! i) p else None)"

text \<open>
  Modelled from the spec: \<^verbatim>\<open>ast.WalkFunc\<close> is the traversal primitive of the markdown
  library. Sections 3 and 6 of the spec: depth-first, pre-order, with a callback that
  returns "continue" or "terminate". The callback receives the pointer to the node (here
  its path) and the variables it captures (here a state \<open>'s\<close>); a callback that panics
  ends the walk. None of the callbacks of the source reads the flag \<open>entering\<close>, and the
  node types they act on twice would be containers they terminate on.
\<close>

datatype WalkStatus = GoToNext | SkipChildren | Terminate

fun Walk :: "(path \<Rightarrow> 'r node \<Rightarrow> 's \<Rightarrow> panic + WalkStatus \<times> 's) \<Rightarrow> path \<Rightarrow> 'r node \<Rightarrow> 's
               \<Rightarrow> panic + WalkStatus \<times> 's"
  and WalkChildren :: "(path \<Rightarrow> 'r node \<Rightarrow> 's \<Rightarrow> panic + WalkStatus \<times> 's) \<Rightarrow> path \<Rightarrow> nat
               \<Rightarrow> 'r node list \<Rightarrow> 's \<Rightarrow> panic + WalkStatus \<times> 's" where
  "Walk f p (Leaf l) s =
     (case f p (Leaf l) s of
        Inl e \<Rightarrow> Inl e
      | Inr (Terminate, s') \<Rightarrow> Inr (Terminate, s')
      | Inr (_, s') \<Rightarrow> Inr (GoToNext, s'))"
| "Walk f p (Container c cs) s =
     (case f p (Container c cs) s of
        Inl e \<Rightarrow> Inl e
      | Inr (Terminate, s') \<Rightarrow> Inr (Terminate, s')
      | Inr (SkipChildren, s') \<Rightarrow> Inr (GoToNext, s')
      | Inr (GoToNext, s') \<Rightarrow> WalkChildren f p 0 cs s')"
| "WalkChildren f p i [] s = Inr (GoToNext, s)"
| "WalkChildren f p i (c # cs) s =
     (case Walk f (p @ [i]) c s of
        Inl e \<Rightarrow> Inl e
      | Inr (Terminate, s') \<Rightarrow> Inr (Terminate, s')
      | Inr (_, s') \<Rightarrow> WalkChildren f p (i + 1) cs s')"

definition WalkFunc :: "'r node \<Rightarrow> (path \<Rightarrow> 'r node \<Rightarrow> 's \<Rightarrow> panic + WalkStatus \<times> 's) \<Rightarrow> 's
                          \<Rightarrow> panic + 's" where
  "WalkFunc doc f s = (case Walk f [] doc s of Inl e \<Rightarrow> Inl e | Inr (st, s') \<Rightarrow> Inr s')"

text \<open>
  Modelled from the spec: \<^verbatim>\<open>ast.AppendChild(parent, child)\<close> is a function of the markdown
  library; section 4.7 of the spec: the child is attached as the last child of the
  parent. A leaf node cannot take a child.
\<close>

fun AppendChild :: "'r node \<Rightarrow> 'r node \<Rightarrow> panic + 'r node" where
  "AppendChild (Container c cs) child = Inr (Container c (cs @ [child]))"
| "AppendChild (Leaf l) child = Inl LeafCannotHaveChildren"

text \<open>\<open>AppendChild\<close> through a pointer into the document.\<close>

fun AppendChildAt :: "'r node \<Rightarrow> path \<Rightarrow> 'r node \<Rightarrow> panic + 'r node" where
  "AppendChildAt n [] child = AppendChild n child"
| "AppendChildAt (Leaf l) (i # p) child = Inl NilDereference"
| "AppendChildAt (Container c cs) (i # p) child =
     (if i < length cs
      then (case AppendChildAt (cs ! i) p child of
              Inl e \<Rightarrow> Inl e
            | Inr n' \<Rightarrow> Inr (Container c (cs[i := n'])))
      else Inl NilDereference)"

fun children :: "'r node \<Rightarrow> 'r node list" where
  "children (Leaf l) = []"
| "children (Container c cs) = cs"

section \<open>The standard library\<close>

text \<open>
  \<^verbatim>\<open>bytes.ToLower\<close>, \<^verbatim>\<open>strings.EqualFold\<close>, \<^verbatim>\<open>xml.Unmarshal\<close> and \<^verbatim>\<open>xml.MarshalIndent\<close> are
  parameters of the model: every theorem with a free \<open>L\<close> holds for every such
  functions. \<open>Unmarshal\<close> returns the text of its error or the decoded record.
\<close>

record 'r stdlib =
  ToLower :: "string \<Rightarrow> string"
  EqualFold :: "string \<Rightarrow> string \<Rightarrow> bool"
  Unmarshal :: "string \<Rightarrow> string + 'r"
  MarshalIndent :: "'r \<Rightarrow> string + string"

text \<open>The diagnostics written with \<^verbatim>\<open>log.Printf\<close> and \<^verbatim>\<open>log.Print\<close>, oldest first.\<close>

datatype logmsg =
    FailedUnmarshal string string
  | NoBackmatter

section \<open>authContFromTitle\<close>

definition authContFromTitle :: "Title option \<Rightarrow> panic + string list" where
  "authContFromTitle t =
     (case t of
        None \<Rightarrow> Inr []
      | Some t' \<Rightarrow>
          (case TitleData t' of
             None \<Rightarrow> Inl NilDereference
           | Some d \<Rightarrow> Inr (map Fullname (Author d) @ map Fullname (Contact d))))"

section \<open>CitationToBibliography\<close>

text \<open>The first walk: the names of the first title node, and \<open>Terminate\<close>.\<close>

definition titleVisitor :: "path \<Rightarrow> 'r node \<Rightarrow> string list \<Rightarrow> panic + WalkStatus \<times> string list" where
  "titleVisitor p node names =
     (case node of
        Leaf (TitleNode t) \<Rightarrow>
          (case authContFromTitle (Some t) of
             Inl e \<Rightarrow> Inl e
           | Inr names' \<Rightarrow> Inr (Terminate, names'))
      | _ \<Rightarrow> Inr (GoToNext, names))"

text \<open>
  The map \<open>seen\<close> is an association list with one entry for a key, the map \<open>raw\<close> a
  partial function. The loop labelled \<open>Destination\<close> over \<open>c.Destination\<close>, with the
  index \<open>i\<close> into \<open>c.Type\<close>:
\<close>

type_synonym 'r seen = "(string \<times> 'r BibliographyItem) list"

fun Destination :: "'r stdlib \<Rightarrow> string list \<Rightarrow> CitationTypes list \<Rightarrow> nat \<Rightarrow> string list
                      \<Rightarrow> 'r seen \<Rightarrow> panic + 'r seen" where
  "Destination L names typ i [] seen = Inr seen"
| "Destination L names typ i (d # ds) seen =
     (if list_ex (\<lambda>n. EqualFold L n d) names then Destination L names typ (i + 1) ds seen
      else if map_of seen (ToLower L d) \<noteq> None then Destination L names typ (i + 1) ds seen
      else if i \<ge> length typ then Inl IndexOutOfRange
      else Destination L names typ (i + 1) ds
             (AList.update d \<lparr>Anchor = d, Type = typ ! i, Reference = None,
                               ReferenceGroup = None\<rparr> seen))"

text \<open>The second walk: it never terminates early.\<close>

definition collectVisitor :: "'r stdlib \<Rightarrow> string list \<Rightarrow> path \<Rightarrow> 'r node
     \<Rightarrow> 'r seen \<times> (string \<rightharpoonup> string) \<Rightarrow> panic + WalkStatus \<times> ('r seen \<times> (string \<rightharpoonup> string))" where
  "collectVisitor L names p node st =
     (case node of
        Leaf (Citation dest typ) \<Rightarrow>
          (case Destination L names typ 0 dest (fst st) of
             Inl e \<Rightarrow> Inl e
           | Inr seen' \<Rightarrow> Inr (GoToNext, (seen', snd st)))
      | Leaf (ReferenceBlock literal) \<Rightarrow>
          (case anchorFromReference literal of
             None \<Rightarrow> Inr (GoToNext, st)
           | Some anchor \<Rightarrow> Inr (GoToNext, (fst st, (snd st)(ToLower L anchor \<mapsto> literal))))
      | _ \<Rightarrow> Inr (GoToNext, st))"

text \<open>The two walks together: the maps \<open>seen\<close> and \<open>raw\<close> when the second walk is over.\<close>

definition collect :: "'r stdlib \<Rightarrow> 'r node \<Rightarrow> panic + 'r seen \<times> (string \<rightharpoonup> string)" where
  "collect L doc =
     (case WalkFunc doc titleVisitor [] of
        Inl e \<Rightarrow> Inl e
      | Inr names \<Rightarrow> WalkFunc doc (collectVisitor L names) ([], Map.empty))"

text \<open>The first half of the body of the loop over the sorted keys: the raw XML of an item.\<close>

definition resolve :: "'r stdlib \<Rightarrow> (string \<rightharpoonup> string) \<Rightarrow> 'r BibliographyItem
                         \<Rightarrow> 'r BibliographyItem \<times> logmsg list" where
  "resolve L raw r =
     (case raw (ToLower L (Anchor r)) of
        None \<Rightarrow> (r, [])
      | Some rw \<Rightarrow>
          (case Unmarshal L rw of
             Inl e \<Rightarrow> (r\<lparr>ReferenceGroup := Some rw\<rparr>, [FailedUnmarshal (Anchor r) e])
           | Inr x \<Rightarrow> (r\<lparr>Reference := Some x\<rparr>, [])))"

text \<open>
  The second half: the group is created when it is \<open>nil\<close>, and the item appended to it.
\<close>

definition appendItem :: "CitationTypes \<Rightarrow> 'r node option \<Rightarrow> 'r BibliographyItem
                            \<Rightarrow> panic + 'r node option" where
  "appendItem t bib r =
     (let bib' = (case bib of None \<Rightarrow> Container (Bibliography t) [] | Some g \<Rightarrow> g)
      in case AppendChild bib' (Leaf (BibliographyItemNode r)) of
           Inl e \<Rightarrow> Inl e
         | Inr g \<Rightarrow> Inr (Some g))"

fun keysLoop :: "'r stdlib \<Rightarrow> 'r seen \<Rightarrow> (string \<rightharpoonup> string) \<Rightarrow> string list
                   \<Rightarrow> logmsg list \<times> 'r node option \<times> 'r node option
                   \<Rightarrow> panic + logmsg list \<times> 'r node option \<times> 'r node option" where
  "keysLoop L seen raw [] acc = Inr acc"
| "keysLoop L seen raw (k # ks) (log, normative, informative) =
     (case map_of seen k of
        None \<Rightarrow> Inl NilDereference
      | Some r0 \<Rightarrow>
          (let (r, msgs) = resolve L raw r0
           in case Type r of
                CitationTypeSuppressed \<Rightarrow>
                  (case appendItem CitationTypeInformative informative r of
                     Inl e \<Rightarrow> Inl e
                   | Inr informative' \<Rightarrow> keysLoop L seen raw ks (log @ msgs, normative, informative'))
              | CitationTypeInformative \<Rightarrow>
                  (case appendItem CitationTypeInformative informative r of
                     Inl e \<Rightarrow> Inl e
                   | Inr informative' \<Rightarrow> keysLoop L seen raw ks (log @ msgs, normative, informative'))
              | CitationTypeNormative \<Rightarrow>
                  (case appendItem CitationTypeNormative normative r of
                     Inl e \<Rightarrow> Inl e
                   | Inr normative' \<Rightarrow> keysLoop L seen raw ks (log @ msgs, normative', informative))))"

text \<open>
  The keys of \<open>seen\<close>, in the order \<open>keys\<close> in which \<^verbatim>\<open>range seen\<close> yields them, are sorted
  with \<^verbatim>\<open>sort.Strings\<close> (the byte-wise lexicographic order of strings) before the loop.
\<close>

definition assemble :: "'r stdlib \<Rightarrow> 'r seen \<Rightarrow> (string \<rightharpoonup> string) \<Rightarrow> string list
                          \<Rightarrow> panic + logmsg list \<times> 'r node option \<times> 'r node option" where
  "assemble L seen raw keys = keysLoop L seen raw (sort keys) ([], None, None)"

definition CitationToBibliography :: "'r stdlib \<Rightarrow> 'r node
     \<Rightarrow> panic + logmsg list \<times> 'r node option \<times> 'r node option" where
  "CitationToBibliography L doc =
     (case collect L doc of
        Inl e \<Rightarrow> Inl e
      | Inr (seen, raw) \<Rightarrow> assemble L seen raw (map fst seen))"

section \<open>NodeBackMatter and AddBibliography\<close>

definition backVisitor :: "path \<Rightarrow> 'r node \<Rightarrow> path option \<Rightarrow> panic + WalkStatus \<times> path option" where
  "backVisitor p node matter =
     (case node of
        Container (DocumentMatter mat) cs \<Rightarrow>
          (if mat = DocumentMatterBack then Inr (Terminate, Some p) else Inr (GoToNext, matter))
      | _ \<Rightarrow> Inr (GoToNext, matter))"

definition NodeBackMatter :: "'r node \<Rightarrow> path option" where
  "NodeBackMatter doc = (case WalkFunc doc backVisitor None of Inl e \<Rightarrow> None | Inr matter \<Rightarrow> matter)"

text \<open>
  \<open>AddBibliography\<close> returns its boolean, the document as the calls of \<open>AppendChild\<close>
  leave it, and the log. The new wrapper is the last child of the node \<open>where\<close>: its
  pointer is the path of \<open>where\<close> followed by the number of children \<open>where\<close> had.
\<close>

definition AddBibliography :: "'r stdlib \<Rightarrow> 'r node \<Rightarrow> panic + bool \<times> 'r node \<times> logmsg list" where
  "AddBibliography L doc =
     (case CitationToBibliography L doc of
        Inl e \<Rightarrow> Inl e
      | Inr (log, norm, inform) \<Rightarrow>
          (case NodeBackMatter doc of
             None \<Rightarrow>
               Inr (False, doc,
                    if norm \<noteq> None \<or> inform \<noteq> None then log @ [NoBackmatter] else log)
           | Some where0 \<Rightarrow>
               (case (if norm \<noteq> None \<and> inform \<noteq> None
                      then (case AppendChildAt doc where0 (Container BibliographyWrapper []) of
                              Inl e \<Rightarrow> Inl e
                            | Inr doc' \<Rightarrow>
                                Inr (doc', where0 @ [length (children (the (nodeAt doc where0)))]))
                      else Inr (doc, where0)) of
                  Inl e \<Rightarrow> Inl e
                | Inr (doc1, where1) \<Rightarrow>
                    (case (case norm of None \<Rightarrow> Inr doc1
                                      | Some n \<Rightarrow> AppendChildAt doc1 where1 n) of
                       Inl e \<Rightarrow> Inl e
                     | Inr doc2 \<Rightarrow>
                         (case (case inform of None \<Rightarrow> Inr doc2
                                             | Some i \<Rightarrow> AppendChildAt doc2 where1 i) of
                            Inl e \<Rightarrow> Inl e
                          | Inr doc3 \<Rightarrow> Inr (norm \<noteq> None \<or> inform \<noteq> None, doc3, log))))))"

section \<open>ReferenceHook and fmtReference\<close>

definition fmtReference :: "'r stdlib \<Rightarrow> string \<Rightarrow> string" where
  "fmtReference L data =
     (case Unmarshal L data of
        Inl e \<Rightarrow> data
      | Inr x \<Rightarrow> (case MarshalIndent L x of Inl e \<Rightarrow> data | Inr out \<Rightarrow> out))"

text \<open>
  \<open>ReferenceHook\<close> returns \<open>(nil, nil, 0)\<close>, here \<open>None\<close>, or the new \<open>ReferenceBlock\<close> node
  and the length of the span.
\<close>

definition ReferenceHook :: "'r stdlib \<Rightarrow> string \<Rightarrow> string \<Rightarrow> panic + ('r node \<times> nat) option" where
  "ReferenceHook L data spare =
     (case IsReference data spare of
        Inl e \<Rightarrow> Inl e
      | Inr None \<Rightarrow> Inr None
      | Inr (Some ref) \<Rightarrow> Inr (Some (Leaf (ReferenceBlock (fmtReference L ref)), length ref)))"

section \<open>An instance of the library, for running the model\<close>

text \<open>
  On ASCII text \<^verbatim>\<open>bytes.ToLower\<close> maps the letters \<open>A\<close> to \<open>Z\<close> and \<^verbatim>\<open>strings.EqualFold\<close>
  compares the lower-cased strings. The decoder of the instance stands for
  \<^verbatim>\<open>encoding/xml\<close>: it accepts the spans that hold an element \<open>front\<close>, and its encoder
  indents the record.
\<close>

definition asciiLower :: "char \<Rightarrow> char" where
  "asciiLower c =
     (case map_of (zip ''ABCDEFGHIJKLMNOPQRSTUVWXYZ'' ''abcdefghijklmnopqrstuvwxyz'') c of
        None \<Rightarrow> c
      | Some l \<Rightarrow> l)"

definition sampleUnmarshal :: "string \<Rightarrow> string + string" where
  "sampleUnmarshal data = (if Index data ''<front>'' < 0 then Inl ''EOF'' else Inr data)"

definition sampleLib :: "string stdlib" where
  "sampleLib =
     \<lparr>ToLower = map asciiLower,
      EqualFold = (\<lambda>s t. map asciiLower s = map asciiLower t),
      Unmarshal = sampleUnmarshal,
      MarshalIndent = (\<lambda>x. Inr (''   '' @ x))\<rparr>"

section \<open>The nodes of a document, for stating the claims\<close>

text \<open>The nodes of a tree with their paths, in document order.\<close>

fun preorder :: "path \<Rightarrow> 'r node \<Rightarrow> (path \<times> 'r node) list"
  and preorderChildren :: "path \<Rightarrow> nat \<Rightarrow> 'r node list \<Rightarrow> (path \<times> 'r node) list" where
  "preorder p (Leaf l) = [(p, Leaf l)]"
| "preorder p (Container c cs) = (p, Container c cs) # preorderChildren p 0 cs"
| "preorderChildren p i [] = []"
| "preorderChildren p i (c # cs) = preorder (p @ [i]) c @ preorderChildren p (i + 1) cs"

text \<open>A callback run over a list of nodes until it terminates or panics.\<close>

fun visitList :: "(path \<Rightarrow> 'r node \<Rightarrow> 's \<Rightarrow> panic + WalkStatus \<times> 's) \<Rightarrow> (path \<times> 'r node) list
                    \<Rightarrow> 's \<Rightarrow> panic + WalkStatus \<times> 's" where
  "visitList f [] s = Inr (GoToNext, s)"
| "visitList f (x # xs) s =
     (case f (fst x) (snd x) s of
        Inl e \<Rightarrow> Inl e
      | Inr (Terminate, s') \<Rightarrow> Inr (Terminate, s')
      | Inr (_, s') \<Rightarrow> visitList f xs s')"

fun isTitle :: "'r node \<Rightarrow> bool" where
  "isTitle (Leaf (TitleNode t)) = True"
| "isTitle _ = False"

fun isBackMatter :: "'r node \<Rightarrow> bool" where
  "isBackMatter (Container (DocumentMatter mat) cs) = (mat = DocumentMatterBack)"
| "isBackMatter _ = False"

text \<open>The first title node of the document, in document order.\<close>

definition firstTitle :: "'r node \<Rightarrow> Title option" where
  "firstTitle doc =
     (case find (\<lambda>x. isTitle (snd x)) (preorder [] doc) of
        Some (p, Leaf (TitleNode t)) \<Rightarrow> Some t
      | _ \<Rightarrow> None)"

text \<open>The items of a group returned by \<open>CitationToBibliography\<close> (none for \<open>nil\<close>).\<close>

fun itemOf :: "'r node \<Rightarrow> 'r BibliographyItem list" where
  "itemOf (Leaf (BibliographyItemNode r)) = [r]"
| "itemOf _ = []"

definition items :: "'r node option \<Rightarrow> 'r BibliographyItem list" where
  "items g = (case g of None \<Rightarrow> [] | Some n \<Rightarrow> concat (map itemOf (children n)))"

text \<open>A group of the given kind with the given items; \<open>nil\<close> when there is none.\<close>

definition bibliography :: "CitationTypes \<Rightarrow> 'r BibliographyItem list \<Rightarrow> 'r node option" where
  "bibliography t rs =
     (if rs = [] then None
      else Some (Container (Bibliography t) (map (\<lambda>r. Leaf (BibliographyItemNode r)) rs)))"

section \<open>Facts about the byte functions\<close>

lemma Index_first:
  "n \<le> length s \<Longrightarrow> HasPrefix (drop n s) sep \<Longrightarrow> \<forall>j<n. \<not> HasPrefix (drop j s) sep
    \<Longrightarrow> Index s sep = int n"
proof (induction s arbitrary: n)
  case Nil
  then show ?case by (auto simp: HasPrefix_def)
next
  case (Cons c s)
  show ?case
  proof (cases n)
    case 0
    with Cons.prems show ?thesis by simp
  next
    case (Suc m)
    from Cons.prems Suc have nh: "\<not> HasPrefix (c # s) sep" by fastforce
    have a: "m \<le> length s" using Cons.prems Suc by simp
    have b: "HasPrefix (drop m s) sep" using Cons.prems Suc by simp
    have c: "\<forall>j<m. \<not> HasPrefix (drop j s) sep"
    proof (intro allI impI)
      fix j assume "j < m"
      then have "Suc j < n" using Suc by simp
      with Cons.prems have "\<not> HasPrefix (drop (Suc j) (c # s)) sep" by blast
      then show "\<not> HasPrefix (drop j s) sep" by simp
    qed
    from Cons.IH[OF a b c] nh Suc show ?thesis by simp
  qed
qed

lemma scan_takeWhile:
  "i \<le> length data \<Longrightarrow> scan data q i = i + length (takeWhile (\<lambda>c. c \<noteq> q) (drop i data))"
proof (induction data q i rule: scan.induct)
  case (1 data quote i)
  show ?case
  proof (cases "i < length data \<and> data ! i \<noteq> quote")
    case True
    then have d: "drop i data = data ! i # drop (Suc i) data"
      by (simp add: Cons_nth_drop_Suc)
    from True 1 have "scan data quote (i + 1)
        = i + 1 + length (takeWhile (\<lambda>c. c \<noteq> quote) (drop (i + 1) data))"
      by simp
    with True d show ?thesis by (subst scan.simps) simp
  next
    case False
    show ?thesis
    proof (cases "i < length data")
      case True
      with False have e: "data ! i = quote" by simp
      from True have d: "drop i data = data ! i # drop (Suc i) data"
        by (simp add: Cons_nth_drop_Suc)
      from False d e show ?thesis by (subst scan.simps) simp
    next
      case F: False
      with 1 have "drop i data = []" by simp
      with False show ?thesis by (subst scan.simps) simp
    qed
  qed
qed

lemma takeWhile_short:
  "length (takeWhile P xs) < length xs \<longleftrightarrow> (\<exists>x\<in>set xs. \<not> P x)"
  by (induction xs) auto

lemma scan_core:
  assumes "b \<le> length data" and "drop b data = rest"
  shows "(if length data \<le> scan data q b then None else Some (slice data b (scan data q b)))
         = (if q \<in> set rest then Some (takeWhile (\<lambda>c. c \<noteq> q) rest) else None)"
proof -
  have len: "length data = b + length rest"
    using assms by auto
  have sc: "scan data q b = b + length (takeWhile (\<lambda>c. c \<noteq> q) rest)"
    using scan_takeWhile[OF assms(1), of q] assms(2) by simp
  have sl: "slice data b (b + length (takeWhile (\<lambda>c. c \<noteq> q) rest))
              = takeWhile (\<lambda>c. c \<noteq> q) rest"
    using assms(2) by (simp add: slice_def takeWhile_eq_take[symmetric])
  have tw: "length (takeWhile (\<lambda>c. c \<noteq> q) rest) < length rest \<longleftrightarrow> q \<in> set rest"
    by (simp add: takeWhile_short)
  show ?thesis
    unfolding sc sl len using tw by auto
qed

section \<open>The claims\<close>

text \<open>
  C10. When the span starts with an opener and \<open>anchor=\<close> (at its first occurrence) is
  followed by at least one byte \<open>q\<close>, whatever byte it is, \<open>anchorFromReference\<close> returns
  the bytes strictly between \<open>q\<close> and the next occurrence of \<open>q\<close>, and none when \<open>q\<close>
  does not occur again before the end of the buffer.
\<close>

theorem anchorFromReference_delimiter:
  assumes opener: "HasPrefix data ''<reference '' \<or> HasPrefix data ''<referencegroup ''"
    and shape: "data = pre @ ''anchor='' @ q # rest"
    and first: "\<forall>j<length pre. \<not> HasPrefix (drop j data) ''anchor=''"
  shows "anchorFromReference data =
           (if q \<in> set rest then Some (takeWhile (\<lambda>c. c \<noteq> q) rest) else None)"
proof -
  have len: "length data = length pre + 8 + length rest"
    using shape by simp
  have "HasPrefix (drop (length pre) data) ''anchor=''"
    using shape by (simp add: HasPrefix_def)
  with first have idx: "Index data ''anchor='' = int (length pre)"
    by (intro Index_first) (simp_all add: len)
  have quote: "data ! (length pre + 7) = q"
    using shape by (simp add: nth_append)
  have rest: "drop (length pre + 7 + 1) data = rest"
    using shape by simp
  have le: "length pre + 7 + 1 \<le> length data"
    using len by simp
  have op: "(\<not> HasPrefix data ''<reference '' \<and> \<not> HasPrefix data ''<referencegroup '') = False"
    using opener by simp
  have nb: "(length data \<le> length pre + 7) = False"
    using len by simp
  have "anchorFromReference data =
          (if length data \<le> scan data q (length pre + 7 + 1) then None
           else Some (slice data (length pre + 7 + 1) (scan data q (length pre + 7 + 1))))"
    unfolding anchorFromReference_def Let_def idx nat_int
    by (simp only: op nb if_False of_nat_less_0_iff quote)
  also have "\<dots> = (if q \<in> set rest then Some (takeWhile (\<lambda>c. c \<noteq> q) rest) else None)"
    by (rule scan_core[OF le rest])
  finally show ?thesis .
qed

theorem anchorFromReference_delimiter_witness:
  "(HasPrefix ''<reference anchor=|A|>'' ''<reference ''
      \<or> HasPrefix ''<reference anchor=|A|>'' ''<referencegroup '')
   \<and> ''<reference anchor=|A|>'' = ''<reference '' @ ''anchor='' @ CHR ''|'' # ''A|>''
   \<and> anchorFromReference ''<reference anchor=|A|>'' = Some ''A''"
proof -
  have f: "\<forall>j<length ''<reference ''.
             \<not> HasPrefix (drop j ''<reference anchor=|A|>'') ''anchor=''"
    by (simp add: HasPrefix_def All_less_Suc)
  have o: "HasPrefix ''<reference anchor=|A|>'' ''<reference ''
             \<or> HasPrefix ''<reference anchor=|A|>'' ''<referencegroup ''"
    by (simp add: HasPrefix_def)
  have s: "''<reference anchor=|A|>'' = ''<reference '' @ ''anchor='' @ CHR ''|'' # ''A|>''"
    by simp
  have "anchorFromReference ''<reference anchor=|A|>'' = Some ''A''"
    using anchorFromReference_delimiter[OF o s f] by simp
  with o s show ?thesis by blast
qed

text \<open>
  C2. The claim: when no closing marker follows the opener, \<open>IsReference\<close> answers
  \<open>matched = false\<close> and no span. The code at a buffer of 36 bytes with no closing marker:
  \<open>bytes.Index\<close> gives -1, neither \<open>end > len(data)\<close> nor \<open>end == 0\<close> holds, and the
  result is the first 23 bytes with \<open>matched = true\<close>.
\<close>

theorem IsReference_no_closing_marker:
  "IsReference ''<reference anchor='x'> no end marker'' []
     = Inr (Some ''<reference anchor='x'> '')"
  by (simp add: IsReference_def HasPrefix_def Let_def)

text \<open>
  C4. The claim: no operation of the core panics. The code at the 11 bytes of the opener,
  whatever the capacity of the buffer: \<open>data[len(typ):]\<close> slices at 12 and panics.
\<close>

theorem IsReference_short_buffer_panics:
  "IsReference ''<reference '' spare = Inl SliceBoundsOutOfRange"
  by (simp add: IsReference_def HasPrefix_def Let_def)

text \<open>
  C1. The claim: two citations whose anchors differ only in letter case give one item.
  The code looks the lower-cased anchor up in \<open>seen\<close> and stores the item under the
  anchor as written: at the anchors \<open>X\<close> then \<open>x\<close> the key \<open>x\<close> is not in \<open>seen\<close> when
  \<open>x\<close> arrives, and two items result.
\<close>

theorem CitationToBibliography_upper_then_lower:
  "CitationToBibliography sampleLib
     (Container OtherContainer
        [Leaf (Citation [''X'', ''x''] [CitationTypeNormative, CitationTypeInformative])])
   = Inr ([],
          Some (Container (Bibliography CitationTypeNormative)
                  [Leaf (BibliographyItemNode
                     \<lparr>Anchor = ''X'', Type = CitationTypeNormative, Reference = None,
                      ReferenceGroup = None\<rparr>)]),
          Some (Container (Bibliography CitationTypeInformative)
                  [Leaf (BibliographyItemNode
                     \<lparr>Anchor = ''x'', Type = CitationTypeInformative, Reference = None,
                      ReferenceGroup = None\<rparr>)]))"
  by code_simp

end
